theory Spec2Isabelle
  imports Main
begin

section \<open>Values\<close>

text \<open>
  JavaScript values as far as the container engine inspects them. Arrays, plain objects
  and dates carry the identity of the heap object (a number) next to their content:
  \<open>===\<close> and \<open>Object.is\<close> compare primitives by value and objects by identity.
  Numbers are integers here, so \<open>NaN\<close> and the signed zero, the only values on which
  \<open>Object.is\<close> and \<open>===\<close> differ, do not occur.
\<close>

datatype val =
    Undefined
  | Null
  | Bool bool
  | Num int
  | Str string
  | Arr nat "val list"
  | Obj nat "(string \<times> val) list"
  | Date nat int

fun truthy :: "val \<Rightarrow> bool" where
  "truthy Undefined = False"
| "truthy Null = False"
| "truthy (Bool b) = b"
| "truthy (Num n) = (n \<noteq> 0)"
| "truthy (Str s) = (s \<noteq> [])"
| "truthy (Arr i xs) = True"
| "truthy (Obj i kvs) = True"
| "truthy (Date i t) = True"

fun strict_eq :: "val \<Rightarrow> val \<Rightarrow> bool" where
  "strict_eq Undefined Undefined = True"
| "strict_eq Null Null = True"
| "strict_eq (Bool a) (Bool b) = (a = b)"
| "strict_eq (Num a) (Num b) = (a = b)"
| "strict_eq (Str a) (Str b) = (a = b)"
| "strict_eq (Arr i xs) (Arr j ys) = (i = j)"
| "strict_eq (Obj i xs) (Obj j ys) = (i = j)"
| "strict_eq (Date i s) (Date j t) = (i = j)"
| "strict_eq a b = False"

text \<open>Property read \<open>v[key]\<close> on an object; a missing key reads \<open>undefined\<close>.\<close>

fun get_prop :: "val \<Rightarrow> string \<Rightarrow> val" where
  "get_prop (Obj i kvs) k = (case map_of kvs k of Some v \<Rightarrow> v | None \<Rightarrow> Undefined)"
| "get_prop v k = Undefined"

text \<open>\<open>e?.name === "AbortError"\<close> of the rejection handler of \<open>set\<close>.\<close>

definition isAbortError :: "val \<Rightarrow> bool" where
  "isAbortError e = strict_eq (get_prop e ''name'') (Str ''AbortError'')"

section \<open>Container state\<close>

text \<open>
  \<open>type State = { loading: boolean; data: TData; error: any }\<close>. The state is replaced
  by a new object on every change and \<open>set\<close> compares state objects by identity
  (\<open>snapshot !== state\<close>), so the record carries the identity of the object.
\<close>

record State =
  s_data :: val
  s_loading :: bool
  s_error :: val
  s_ref :: nat

text \<open>\<open>Partial<State>\<close>: the fields a call of \<open>changeState\<close> supplies.\<close>

record change =
  c_data :: "val option"
  c_loading :: "bool option"
  c_error :: "val option"

text \<open>
  The listeners the library itself registers, and those of its users. A user's listener
  is opaque (\<open>External\<close>); \<open>WaitL p u\<close> is the listener \<open>wait()\<close> registers for its promise
  \<open>p\<close>, closing over its own unsubscribe function \<open>u\<close>; \<open>HydL a\<close> is the change
  listener the hydration hook registers at its \<open>a\<close>-th attachment; \<open>Linked d\<close> is
  \<open>handleChange\<close> of the derived container \<open>d\<close>.
\<close>

record unsub_info =
  initialIndex :: nat
  initialToken :: nat

datatype listener =
    External nat
  | WaitL nat unsub_info
  | HydL nat
  | Linked nat

text \<open>
  What is handed to \<open>set\<close>: a value that is neither a function nor a thenable, a
  promise (by its identity), or an updater function, which returns one of the former or
  throws.
\<close>

datatype plain = PVal val | PPromise nat

datatype fresult = Return plain | Throw val

datatype upd = Plain plain | Fn "val \<Rightarrow> fresult"

text \<open>The controller \<open>droppable\<close> returns: its \<open>done\<close> closes over the token.\<close>

record controller =
  cc_token :: nat

record blok =
  state :: State
  handlers :: "listener list"
  indexesChanged :: nat
  compare :: "val \<Rightarrow> val \<Rightarrow> bool"
  initialData :: upd
  initialized :: bool
  waitPromise :: "nat option"
  updatingToken :: "nat option"
  concurrentController :: "controller option"
  autoRefresh :: "nat option"
  autoRefreshTimer :: "nat option"
  disposed :: bool

section \<open>The world\<close>

text \<open>
  The hydration store of \<open>hydrate\<close>. \<open>HydratedData\<close> is
  \<open>{data?, members?: Map, blok?}\<close>; the members of a family slot have no members of
  their own. A \<open>Map\<close> is a list of pairs in insertion order, read with \<open>===\<close> on the
  keys. A dehydrated collection is an array, so it has an identity.
\<close>

record member =
  m_data :: val
  m_blok :: "nat option"

record HydratedData =
  h_data :: val
  h_blok :: "nat option"
  h_members :: "(val \<times> member) list option"

datatype DehydratedData = DData val | DMembers "(val \<times> val) list"

record collection =
  col_ref :: nat
  col_items :: "(val \<times> DehydratedData) list"

record hydration =
  hydratedData :: "(val \<times> HydratedData) list"
  lastDehyratedData :: "collection option"
  dehydrateHandlers :: "nat list"
  prevData :: "nat \<Rightarrow> val option"

text \<open>
  \<open>Emit c hs\<close> records one run of \<open>changeEmitter.emit()\<close> of container \<open>c\<close> with the
  handler list it iterates (\<open>handlers.slice(0)\<close>); \<open>Settled p r\<close> records that promise
  \<open>p\<close>, created by \<open>wait()\<close>, was resolved (\<open>Inr\<close>) or rejected (\<open>Inl\<close>);
  \<open>DehydrateEmit hs col\<close> records one run of the store's \<open>dehydrateEmitter\<close>.
\<close>

datatype event =
    Emit nat "listener list"
  | Settled nat "val + val"
  | DehydrateEmit "nat list" collection

text \<open>
  A reaction is the pair of handlers \<open>set\<close> passes to \<open>then\<close>: the container, the
  \<open>snapshot\<close> and the local \<open>cc\<close> they close over.
\<close>

record reaction =
  r_promise :: nat
  r_blok :: nat
  r_snapshot :: nat
  r_cc :: "controller option"

text \<open>
  The module's globals \<open>mutationCount\<close> and \<open>batchChanges\<close> (a \<open>Set\<close> of the
  \<open>notify\<close> closures, one per container, in insertion order), the containers, the
  pending reactions and timers of the host, one hydration store, and a counter for the
  identities of new objects.
\<close>

record world =
  bloks :: "nat \<Rightarrow> blok"
  mutationCount :: nat
  batchChanges :: "nat list"
  reactions :: "reaction list"
  timers :: "(nat \<times> nat) list"
  hyd :: hydration
  fresh :: nat
  log :: "event list"

definition upd_blok :: "nat \<Rightarrow> (blok \<Rightarrow> blok) \<Rightarrow> world \<Rightarrow> world" where
  "upd_blok c f w = w\<lparr>bloks := (bloks w)(c := f (bloks w c))\<rparr>"

section \<open>Emitter\<close>

text \<open>
  \<open>createEmitter\<close>. \<open>add\<close> pushes the handler and returns a function closing over the
  handler, its index and the \<open>indexesChanged\<close> token of that moment; the token is a new
  object after every removal, here the next number. \<open>splice(index, 1)\<close> past the end
  removes nothing.
\<close>

definition add :: "listener \<Rightarrow> blok \<Rightarrow> blok" where
  "add h b = b\<lparr>handlers := handlers b @ [h]\<rparr>"

definition add_info :: "blok \<Rightarrow> unsub_info" where
  "add_info b = \<lparr>initialIndex = length (handlers b), initialToken = indexesChanged b\<rparr>"

fun indexOf :: "'a list \<Rightarrow> 'a \<Rightarrow> nat option" where
  "indexOf [] h = None"
| "indexOf (x # xs) h = (if x = h then Some 0 else map_option Suc (indexOf xs h))"

definition splice1 :: "nat \<Rightarrow> 'a list \<Rightarrow> 'a list" where
  "splice1 i xs = take i xs @ drop (Suc i) xs"

definition unsubscribe :: "listener \<Rightarrow> unsub_info \<Rightarrow> blok \<Rightarrow> blok" where
  "unsubscribe h u b =
     (case (if initialToken u = indexesChanged b then Some (initialIndex u)
            else indexOf (handlers b) h) of
        None \<Rightarrow> b
      | Some i \<Rightarrow> b\<lparr>indexesChanged := Suc (indexesChanged b),
                     handlers := splice1 i (handlers b)\<rparr>)"

definition clear :: "blok \<Rightarrow> blok" where
  "clear b = b\<lparr>handlers := []\<rparr>"

section \<open>Hydration store: dehydrate\<close>

text \<open>
  \<open>dehydrate()\<close> without a callback. The cached collection is returned when there is
  one; otherwise every slot with a live container contributes \<open>blok.data\<close>, a family
  slot contributes the list of its live members, and the new array is cached. The
  \<open>data\<close> getter is read as \<open>state.data\<close>: the containers attached to the store are
  initialized ones (created eagerly or pre-seeded).
\<close>

definition dehydrate_members :: "world \<Rightarrow> (val \<times> member) list \<Rightarrow> (val \<times> val) list" where
  "dehydrate_members w ms =
     concat (map (\<lambda>(memberKey, memberData).
        (case m_blok memberData of
           None \<Rightarrow> []
         | Some b \<Rightarrow> [(memberKey, s_data (state (bloks w b)))])) ms)"

definition dehydrate_items :: "world \<Rightarrow> (val \<times> DehydratedData) list" where
  "dehydrate_items w =
     concat (map (\<lambda>(blokKey, blokData).
        (case h_members blokData of
           Some ms \<Rightarrow> [(blokKey, DMembers (dehydrate_members w ms))]
         | None \<Rightarrow>
            (case h_blok blokData of
               None \<Rightarrow> []
             | Some b \<Rightarrow> [(blokKey, DData (s_data (state (bloks w b))))])))
        (hydratedData (hyd w)))"

definition dehydrate :: "world \<Rightarrow> collection \<times> world" where
  "dehydrate w =
     (case lastDehyratedData (hyd w) of
        Some col \<Rightarrow> (col, w)
      | None \<Rightarrow>
         (let col = \<lparr>col_ref = fresh w, col_items = dehydrate_items w\<rparr>
          in (col, w\<lparr>hyd := (hyd w)\<lparr>lastDehyratedData := Some col\<rparr>,
                      fresh := Suc (fresh w)\<rparr>)))"

text \<open>\<open>dehydrateEmitter.emitIfAny(() => dehydrate())\<close>; the subscribers are opaque.\<close>

definition emitIfAny_dehydrate :: "world \<Rightarrow> world" where
  "emitIfAny_dehydrate w =
     (if dehydrateHandlers (hyd w) \<noteq> []
      then (let (col, w1) = dehydrate w
            in w1\<lparr>log := log w1 @ [DehydrateEmit (dehydrateHandlers (hyd w1)) col]\<rparr>)
      else w)"

section \<open>Notification\<close>

text \<open>
  The effect of one handler run by \<open>emit\<close>. The listener of \<open>wait()\<close> unsubscribes
  itself, forgets the cached promise and settles it: rejected when \<open>state.error\<close> is
  truthy, resolved with \<open>state.data\<close> otherwise. The listener of the hydration hook
  returns while the container has an error or is loading or when the data is the one it
  saw last (\<open>prevData\<close> starts as a new object, equal to nothing: \<open>None\<close>); otherwise it
  drops the cached collection and runs the dehydration subscribers. A user's listener is
  opaque, and \<open>handleChange\<close> of a derived container is applied as a step of its own
  (below); \<open>emit\<close> records the handlers it runs in the log.
\<close>

fun run_handler :: "nat \<Rightarrow> listener \<Rightarrow> world \<Rightarrow> world" where
  "run_handler c (WaitL p u) w =
     (let w1 = upd_blok c (\<lambda>b. (unsubscribe (WaitL p u) u b)\<lparr>waitPromise := None\<rparr>) w;
          st = state (bloks w1 c)
      in w1\<lparr>log := log w1 @
            [Settled p (if truthy (s_error st) then Inl (s_error st) else Inr (s_data st))]\<rparr>)"
| "run_handler c (HydL a) w =
     (let st = state (bloks w c)
      in if truthy (s_error st) \<or> s_loading st then w
         else if (case prevData (hyd w) a of None \<Rightarrow> False
                  | Some v \<Rightarrow> strict_eq v (s_data st)) then w
         else emitIfAny_dehydrate
                (w\<lparr>hyd := (hyd w)\<lparr>prevData := (prevData (hyd w))(a := Some (s_data st)),
                                   lastDehyratedData := None\<rparr>\<rparr>))"
| "run_handler c h w = w"

definition emit :: "nat \<Rightarrow> world \<Rightarrow> world" where
  "emit c w =
     (let hs = handlers (bloks w c)
      in fold (run_handler c) hs (w\<lparr>log := log w @ [Emit c hs]\<rparr>))"

text \<open>\<open>notify\<close>: deferred into \<open>batchChanges\<close> (a \<open>Set\<close>) while a batch is open.\<close>

definition notify :: "nat \<Rightarrow> world \<Rightarrow> world" where
  "notify c w =
     (if mutationCount w \<noteq> 0
      then w\<lparr>batchChanges :=
              (if c \<in> set (batchChanges w) then batchChanges w else batchChanges w @ [c])\<rparr>
      else emit c w)"

definition merge_change :: "State \<Rightarrow> change \<Rightarrow> State" where
  "merge_change st ch =
     st\<lparr>s_data := (case c_data ch of Some v \<Rightarrow> v | None \<Rightarrow> s_data st),
        s_loading := (case c_loading ch of Some l \<Rightarrow> l | None \<Rightarrow> s_loading st),
        s_error := (case c_error ch of Some e \<Rightarrow> e | None \<Rightarrow> s_error st)\<rparr>"

definition changeState :: "nat \<Rightarrow> change \<Rightarrow> world \<Rightarrow> world" where
  "changeState c ch w =
     (let st = state (bloks w c); nextState = merge_change st ch
      in if strict_eq (s_data st) (s_data nextState) \<and>
            strict_eq (s_error st) (s_error nextState) \<and>
            s_loading st = s_loading nextState
         then w
         else notify c
                ((upd_blok c (\<lambda>b. b\<lparr>state := nextState\<lparr>s_ref := fresh w\<rparr>\<rparr>) w)
                   \<lparr>fresh := Suc (fresh w)\<rparr>))"

section \<open>Concurrency modes\<close>

text \<open>
  \<open>droppable()\<close>: returns \<open>undefined\<close> while the context holds a token; otherwise it
  stores a new token, runs the callback and returns a controller whose \<open>done\<close> deletes
  the token if it is still the stored one. The modes that depend on timers and on the
  clock (\<open>debounce\<close>, \<open>throttle\<close>) are not part of this development.
\<close>

datatype mode = Droppable

definition droppable :: "nat \<Rightarrow> (world \<Rightarrow> world) \<Rightarrow> world \<Rightarrow> controller option \<times> world" where
  "droppable c callback w =
     (case updatingToken (bloks w c) of
        Some t \<Rightarrow> (None, w)
      | None \<Rightarrow>
         (let token = fresh w;
              w1 = (upd_blok c (\<lambda>b. b\<lparr>updatingToken := Some token\<rparr>) w)\<lparr>fresh := Suc (fresh w)\<rparr>
          in (Some \<lparr>cc_token = token\<rparr>, callback w1)))"

definition controller_done :: "controller \<Rightarrow> nat \<Rightarrow> world \<Rightarrow> world" where
  "controller_done cc c w =
     (if updatingToken (bloks w c) = Some (cc_token cc)
      then upd_blok c (\<lambda>b. b\<lparr>updatingToken := None\<rparr>) w
      else w)"

text \<open>\<open>if (typeof cc === "object") cc.done?.()\<close>\<close>

definition cc_done :: "controller option \<Rightarrow> nat \<Rightarrow> world \<Rightarrow> world" where
  "cc_done cc c w = (case cc of None \<Rightarrow> w | Some k \<Rightarrow> controller_done k c w)"

section \<open>set\<close>

text \<open>
  The part of \<open>set\<close> after the updater has been called, with the local \<open>cc\<close> of the
  invocation. A thenable: the container starts loading, the state object of that moment
  is the snapshot, and the two handlers are registered. Otherwise \<open>cc.done\<close> and the
  comparison with the current data.
\<close>

definition set_plain :: "nat \<Rightarrow> controller option \<Rightarrow> plain \<Rightarrow> world \<Rightarrow> world" where
  "set_plain c cc nextData w =
     (case nextData of
        PPromise p \<Rightarrow>
          (let w1 = changeState c \<lparr>c_data = None, c_loading = Some True,
                                   c_error = Some Undefined\<rparr> w;
               snapshot = s_ref (state (bloks w1 c))
           in w1\<lparr>reactions := reactions w1 @
                  [\<lparr>r_promise = p, r_blok = c, r_snapshot = snapshot, r_cc = cc\<rparr>]\<rparr>)
      | PVal v \<Rightarrow>
          (let w1 = cc_done cc c w;
               st = state (bloks w1 c)
           in changeState c
                \<lparr>c_data = Some (if compare (bloks w1 c) v (s_data st) then s_data st else v),
                 c_loading = Some False, c_error = Some Undefined\<rparr> w1))"

text \<open>
  \<open>set\<close> without a mode once the \<open>data\<close> getter has run \<open>init\<close>: an updater function is
  called with the current data, and what it throws becomes the error.
\<close>

definition set_initialized :: "nat \<Rightarrow> controller option \<Rightarrow> upd \<Rightarrow> world \<Rightarrow> world" where
  "set_initialized c cc nextData w =
     (case nextData of
        Plain p \<Rightarrow> set_plain c cc p w
      | Fn f \<Rightarrow>
          (case f (s_data (state (bloks w c))) of
             Throw e \<Rightarrow> changeState c \<lparr>c_data = None, c_loading = Some False,
                                       c_error = Some e\<rparr> w
           | Return p \<Rightarrow> set_plain c cc p w))"

text \<open>
  \<open>next()\<close> of \<open>init\<close>: with a number as \<open>autoRefresh\<close> the previous timer is cleared and
  a new one is set.
\<close>

definition clearTimeout :: "nat option \<Rightarrow> world \<Rightarrow> world" where
  "clearTimeout h w =
     (case h of None \<Rightarrow> w | Some t \<Rightarrow> w\<lparr>timers := filter (\<lambda>(t', c). t' \<noteq> t) (timers w)\<rparr>)"

definition next_refresh :: "nat \<Rightarrow> world \<Rightarrow> world" where
  "next_refresh c w =
     (let w1 = clearTimeout (autoRefreshTimer (bloks w c)) w;
          t = fresh w1
      in (upd_blok c (\<lambda>b. b\<lparr>autoRefreshTimer := Some t\<rparr>) w1)
           \<lparr>timers := timers w1 @ [(t, c)], fresh := Suc t\<rparr>)"

text \<open>
  \<open>init\<close>. Inside its \<open>blok.set(initialData)\<close> the container is already marked
  initialized, so the \<open>data\<close> getter there reads the state. The number \<open>0\<close> as
  \<open>autoRefresh\<close> is falsy and starts no timer.
\<close>

definition init :: "nat \<Rightarrow> world \<Rightarrow> world" where
  "init c w =
     (if initialized (bloks w c) then w
      else (let w1 = upd_blok c (\<lambda>b. b\<lparr>initialized := True\<rparr>) w;
                w2 = set_initialized c None (initialData (bloks w1 c)) w1
            in case autoRefresh (bloks w2 c) of
                 None \<Rightarrow> w2
               | Some ms \<Rightarrow> if ms = 0 then w2 else next_refresh c w2))"

text \<open>The getter \<open>blok.data\<close>.\<close>

definition get_data :: "nat \<Rightarrow> world \<Rightarrow> val \<times> world" where
  "get_data c w = (let w1 = init c w in (s_data (state (bloks w1 c)), w1))"

text \<open>
  \<open>set(nextData, mode)\<close>. \<open>lastUpdateContext\<close> is never assigned and the controller of
  \<open>droppable\<close> has no \<open>dispose\<close>, so the first two statements do nothing. With a mode,
  the mode receives the callback \<open>() => blok.set(nextData)\<close>, an invocation of \<open>set\<close>
  without a mode and with a local \<open>cc\<close> of its own, and the controller it returns is
  stored in this invocation's \<open>cc\<close> and in \<open>concurrentController\<close>.
\<close>

definition set_nomode :: "nat \<Rightarrow> upd \<Rightarrow> world \<Rightarrow> world" where
  "set_nomode c nextData w =
     (let cc = None
      in case nextData of
           Fn f \<Rightarrow> set_initialized c cc nextData (init c w)
         | Plain p \<Rightarrow> set_initialized c cc nextData w)"

definition set_blok :: "nat \<Rightarrow> upd \<Rightarrow> mode option \<Rightarrow> world \<Rightarrow> world" where
  "set_blok c nextData md w =
     (case md of
        Some Droppable \<Rightarrow>
          (let (cc, w1) = droppable c (set_nomode c nextData) w
           in upd_blok c (\<lambda>b. b\<lparr>concurrentController := cc\<rparr>) w1)
      | None \<Rightarrow> set_nomode c nextData w)"

section \<open>Settlement of a promise\<close>

text \<open>
  The two handlers \<open>set\<close> passes to \<open>then\<close>: \<open>cc.done\<close>, the staleness guard
  \<open>snapshot !== state\<close>, and the state change.
\<close>

definition on_fulfilled :: "reaction \<Rightarrow> val \<Rightarrow> world \<Rightarrow> world" where
  "on_fulfilled r v w =
     (let c = r_blok r; w1 = cc_done (r_cc r) c w
      in if r_snapshot r \<noteq> s_ref (state (bloks w1 c)) then w1
         else changeState c \<lparr>c_data = Some v, c_loading = Some False,
                              c_error = Some Undefined\<rparr> w1)"

definition on_rejected :: "reaction \<Rightarrow> val \<Rightarrow> world \<Rightarrow> world" where
  "on_rejected r e w =
     (let c = r_blok r; w1 = cc_done (r_cc r) c w
      in if r_snapshot r \<noteq> s_ref (state (bloks w1 c)) then w1
         else changeState c \<lparr>c_data = None, c_loading = Some False,
                 c_error = Some (if isAbortError e then Undefined else e)\<rparr> w1)"

text \<open>
  A promise settles: its reactions run in the order of their registration and are
  dropped. \<open>Inr v\<close> is fulfilment with \<open>v\<close>, \<open>Inl e\<close> rejection with \<open>e\<close>.
\<close>

definition run_reaction :: "val + val \<Rightarrow> reaction \<Rightarrow> world \<Rightarrow> world" where
  "run_reaction outcome r w =
     (case outcome of Inr v \<Rightarrow> on_fulfilled r v w | Inl e \<Rightarrow> on_rejected r e w)"

definition settle :: "nat \<Rightarrow> val + val \<Rightarrow> world \<Rightarrow> world" where
  "settle p outcome w =
     (let rs = filter (\<lambda>r. r_promise r = p) (reactions w);
          w1 = w\<lparr>reactions := filter (\<lambda>r. r_promise r \<noteq> p) (reactions w)\<rparr>
      in fold (run_reaction outcome) rs w1)"

section \<open>Hydration store: hooks\<close>

text \<open>\<open>Map.get\<close> and \<open>Map.set\<close>: the first pair whose key is the same value.\<close>

fun map_get :: "(val \<times> 'a) list \<Rightarrow> val \<Rightarrow> 'a option" where
  "map_get [] k = None"
| "map_get ((k', x) # kvs) k = (if strict_eq k' k then Some x else map_get kvs k)"

fun map_set :: "(val \<times> 'a) list \<Rightarrow> val \<Rightarrow> 'a \<Rightarrow> (val \<times> 'a) list" where
  "map_set [] k x = [(k, x)]"
| "map_set ((k', y) # kvs) k x =
     (if strict_eq k' k then (k', x) # kvs else (k', y) # map_set kvs k x)"

text \<open>\<open>hydrate(collection)\<close>: the store seeded from a dehydrated collection.\<close>

definition seed :: "DehydratedData \<Rightarrow> HydratedData" where
  "seed blokData =
     (case blokData of
        DMembers ms \<Rightarrow>
          \<lparr>h_data = Undefined, h_blok = None,
           h_members = Some (fold (\<lambda>(memberKey, memberData) acc.
                               map_set acc memberKey \<lparr>m_data = memberData, m_blok = None\<rparr>) ms [])\<rparr>
      | DData d \<Rightarrow> \<lparr>h_data = d, h_blok = None, h_members = None\<rparr>)"

definition hydrate :: "(val \<times> DehydratedData) list \<Rightarrow> hydration" where
  "hydrate col =
     \<lparr>hydratedData = fold (\<lambda>(blokKey, blokData) acc. map_set acc blokKey (seed blokData)) col [],
      lastDehyratedData = None,
      dehydrateHandlers = [],
      prevData = (\<lambda>a. None)\<rparr>"

text \<open>
  The hook \<open>getHydrateOf(blokKey, memberKey, hasMemberKey)\<close> applied to a container:
  it registers the change listener, finds or creates the slot, records the container as
  the slot's owner and returns \<open>[hydrated, item.data]\<close>. When the key holds a slot without
  members and a member is asked for, the new member is not stored anywhere.
\<close>

definition getHydrateOf :: "val \<Rightarrow> val option \<Rightarrow> nat \<Rightarrow> world \<Rightarrow> (bool \<times> val) \<times> world" where
  "getHydrateOf blokKey memberKey c w =
     (let a = fresh w;
          w1 = (upd_blok c (add (HydL a)) w)\<lparr>fresh := Suc (fresh w)\<rparr>;
          h = hyd w1;
          hd = hydratedData h;
          new = \<lparr>m_data = Undefined, m_blok = Some c\<rparr>
      in case map_get hd blokKey of
           None \<Rightarrow>
             (case memberKey of
                Some mk \<Rightarrow>
                  ((False, Undefined),
                   w1\<lparr>hyd := h\<lparr>hydratedData := map_set hd blokKey
                       \<lparr>h_data = Undefined, h_blok = None, h_members = Some [(mk, new)]\<rparr>\<rparr>\<rparr>)
              | None \<Rightarrow>
                  ((False, Undefined),
                   w1\<lparr>hyd := h\<lparr>hydratedData := map_set hd blokKey
                       \<lparr>h_data = Undefined, h_blok = Some c, h_members = None\<rparr>\<rparr>\<rparr>))
         | Some item \<Rightarrow>
             (case memberKey of
                Some mk \<Rightarrow>
                  (case h_members item of
                     None \<Rightarrow> ((False, Undefined), w1)
                   | Some ms \<Rightarrow>
                      (case map_get ms mk of
                         None \<Rightarrow>
                           ((False, Undefined),
                            w1\<lparr>hyd := h\<lparr>hydratedData := map_set hd blokKey
                                (item\<lparr>h_members := Some (map_set ms mk new)\<rparr>)\<rparr>\<rparr>)
                       | Some m \<Rightarrow>
                           ((True, m_data m),
                            w1\<lparr>hyd := h\<lparr>hydratedData := map_set hd blokKey
                                (item\<lparr>h_members := Some (map_set ms mk (m\<lparr>m_blok := Some c\<rparr>))\<rparr>)\<rparr>\<rparr>)))
              | None \<Rightarrow>
                  ((True, h_data item),
                   w1\<lparr>hyd := h\<lparr>hydratedData := map_set hd blokKey (item\<lparr>h_blok := Some c\<rparr>)\<rparr>\<rparr>)))"

text \<open>\<open>setDataOf\<close>, behind \<open>dataOf\<close> and \<open>dataOfMember\<close>.\<close>

definition setDataOf :: "val \<Rightarrow> val option \<Rightarrow> val \<Rightarrow> world \<Rightarrow> world" where
  "setDataOf blokKey memberKey d w =
     (let h = hyd w; hd = hydratedData h;
          item = (case map_get hd blokKey of
                    None \<Rightarrow> \<lparr>h_data = Undefined, h_blok = None, h_members = None\<rparr>
                  | Some i \<Rightarrow> i);
          item' = (case memberKey of
                     None \<Rightarrow> item\<lparr>h_data := d\<rparr>
                   | Some mk \<Rightarrow>
                       (let ms = (case h_members item of None \<Rightarrow> [] | Some ms \<Rightarrow> ms);
                            m = (case map_get ms mk of
                                   None \<Rightarrow> \<lparr>m_data = Undefined, m_blok = None\<rparr>
                                 | Some m \<Rightarrow> m)
                        in item\<lparr>h_members := Some (map_set ms mk (m\<lparr>m_data := d\<rparr>))\<rparr>))
      in w\<lparr>hyd := h\<lparr>hydratedData := map_set hd blokKey item'\<rparr>\<rparr>)"

section \<open>create\<close>

text \<open>
  The options of \<open>create\<close> this development follows: \<open>compare\<close> (default
  \<open>Object.is\<close>), the hydration hook, given by its slot, and a number as \<open>autoRefresh\<close>.
\<close>

record options =
  o_compare :: "(val \<Rightarrow> val \<Rightarrow> bool) option"
  o_hydrate :: "(val \<times> val option) option"
  o_autoRefresh :: "nat option"

definition no_options :: options where
  "no_options = \<lparr>o_compare = None, o_hydrate = None, o_autoRefresh = None\<rparr>"

definition is_function :: "upd \<Rightarrow> bool" where
  "is_function u = (case u of Fn f \<Rightarrow> True | Plain p \<Rightarrow> False)"

definition new_blok :: "upd \<Rightarrow> options \<Rightarrow> nat \<Rightarrow> blok" where
  "new_blok initial opts r =
     \<lparr>state = \<lparr>s_data = Undefined, s_loading = False, s_error = Undefined, s_ref = r\<rparr>,
      handlers = [],
      indexesChanged = 0,
      compare = (case o_compare opts of None \<Rightarrow> strict_eq | Some f \<Rightarrow> f),
      initialData = initial,
      initialized = (\<not> is_function initial),
      waitPromise = None,
      updatingToken = None,
      concurrentController = None,
      autoRefresh = o_autoRefresh opts,
      autoRefreshTimer = None,
      disposed = False\<rparr>"

text \<open>
  \<open>create\<close> returns the new container, here its number. A pre-seeded value is written
  into the state object directly, without \<open>changeState\<close>.
\<close>

definition create :: "upd \<Rightarrow> options \<Rightarrow> world \<Rightarrow> nat \<times> world" where
  "create initial opts w =
     (let c = fresh w;
          w1 = w\<lparr>bloks := (bloks w)(c := new_blok initial opts (Suc c)), fresh := Suc (Suc c)\<rparr>;
          lazyInit = is_function initial
      in case o_hydrate opts of
           Some (blokKey, memberKey) \<Rightarrow>
             (let ((hydrated, v), w2) = getHydrateOf blokKey memberKey c w1
              in if hydrated
                 then (c, upd_blok c (\<lambda>b. b\<lparr>state := (state b)\<lparr>s_data := v\<rparr>,
                                             initialized := True\<rparr>) w2)
                 else if \<not> lazyInit then (c, set_blok c initial None w2)
                 else (c, w2))
         | None \<Rightarrow>
             if \<not> lazyInit then (c, set_blok c initial None w1) else (c, w1))"

text \<open>A world with no container, no open batch and an empty hydration store.\<close>

definition empty_blok :: blok where
  "empty_blok = new_blok (Plain (PVal Undefined)) no_options 0"

definition world0 :: world where
  "world0 =
     \<lparr>bloks = (\<lambda>c. empty_blok), mutationCount = 0, batchChanges = [], reactions = [],
      timers = [], hyd = hydrate [], fresh = 1, log = []\<rparr>"

section \<open>wait, clearError, reset, dispose, listen\<close>

text \<open>
  \<open>wait()\<close> returns a promise, here its number. While loading, a new promise is made
  and cached and its listener is registered; when not loading, the result is
  \<open>Promise.reject(state.error)\<close>, a promise that is rejected from the start.
\<close>

definition wait :: "nat \<Rightarrow> world \<Rightarrow> nat \<times> world" where
  "wait c w =
     (case waitPromise (bloks w c) of
        Some p \<Rightarrow> (p, w)
      | None \<Rightarrow>
          (let p = fresh w; w1 = w\<lparr>fresh := Suc (fresh w)\<rparr>; b = bloks w1 c
           in if s_loading (state b)
              then (p, upd_blok c (\<lambda>b. (add (WaitL p (add_info b)) b)\<lparr>waitPromise := Some p\<rparr>) w1)
              else (p, w1\<lparr>log := log w1 @ [Settled p (Inl (s_error (state b)))]\<rparr>)))"

definition clearError :: "nat \<Rightarrow> world \<Rightarrow> world" where
  "clearError c w =
     changeState c \<lparr>c_data = None, c_loading = None, c_error = Some Undefined\<rparr> w"

definition reset :: "nat \<Rightarrow> world \<Rightarrow> world" where
  "reset c w =
     (if \<not> initialized (bloks w c) then w
      else init c (upd_blok c (\<lambda>b. b\<lparr>initialized := False\<rparr>) w))"

text \<open>\<open>dispose\<close> of \<open>create\<close>.\<close>

definition dispose :: "nat \<Rightarrow> world \<Rightarrow> world" where
  "dispose c w =
     (if disposed (bloks w c) then w
      else (let w1 = upd_blok c (\<lambda>b. b\<lparr>disposed := True\<rparr>) w;
                w2 = clearTimeout (autoRefreshTimer (bloks w1 c)) w1
            in upd_blok c clear w2))"

text \<open>\<open>listen\<close> is the emitter's \<open>add\<close>; the result is the unsubscribe function.\<close>

definition listen :: "nat \<Rightarrow> listener \<Rightarrow> world \<Rightarrow> unsub_info \<times> world" where
  "listen c h w = (add_info (bloks w c), upd_blok c (add h) w)"

text \<open>
  The callback \<open>init\<close> hands to the timer: nothing once the container is disposed,
  otherwise \<open>blok.set(initialData)\<close> and the next timer. \<open>fire t\<close> is the host running
  the pending timer \<open>t\<close>.
\<close>

definition refresh_callback :: "nat \<Rightarrow> world \<Rightarrow> world" where
  "refresh_callback c w =
     (if disposed (bloks w c) then w
      else next_refresh c (set_blok c (initialData (bloks w c)) None w))"

definition fire :: "nat \<Rightarrow> world \<Rightarrow> world" where
  "fire t w =
     (case map_of (timers w) t of
        None \<Rightarrow> w
      | Some c \<Rightarrow> refresh_callback c (w\<lparr>timers := filter (\<lambda>(t', c). t' \<noteq> t) (timers w)\<rparr>))"

section \<open>batch\<close>

text \<open>
  \<open>batch(mutation)\<close> returns a function; calling it runs \<open>mutation\<close> between the two
  halves below, the second one in a \<open>finally\<close> block. The flush calls the queued
  \<open>notify\<close> of every container in the set. The outcome of the mutation is the value it
  returns (\<open>Inr\<close>) or the exception it throws (\<open>Inl\<close>), which \<open>finally\<close> passes on.
\<close>

definition batch_enter :: "world \<Rightarrow> world" where
  "batch_enter w =
     (let w1 = (if mutationCount w = 0 then w\<lparr>batchChanges := []\<rparr> else w)
      in w1\<lparr>mutationCount := mutationCount w1 + 1\<rparr>)"

definition batch_exit :: "world \<Rightarrow> world" where
  "batch_exit w =
     (let w1 = w\<lparr>mutationCount := mutationCount w - 1\<rparr>
      in if mutationCount w1 = 0 then fold notify (batchChanges w1) w1 else w1)"

definition batch :: "(world \<Rightarrow> (val + val) \<times> world) \<Rightarrow> world \<Rightarrow> (val + val) \<times> world" where
  "batch mutation w =
     (let (r, w1) = mutation (batch_enter w) in (r, batch_exit w1))"

text \<open>
  The mutations this development runs inside a batch: a sequence of calls of \<open>set\<close> on
  any containers, of calls of nested batched functions, and possibly a \<open>throw\<close>, which
  ends the sequence.
\<close>

datatype op = SetOp nat upd "mode option" | BatchOp "op list" | ThrowOp val

fun run_ops :: "op list \<Rightarrow> world \<Rightarrow> (val + val) \<times> world" where
  "run_ops [] w = (Inr Undefined, w)"
| "run_ops (SetOp c u md # ops) w = run_ops ops (set_blok c u md w)"
| "run_ops (ThrowOp e # ops) w = (Inl e, w)"
| "run_ops (BatchOp body # ops) w =
     (case run_ops body (batch_enter w) of
        (Inl e, w1) \<Rightarrow> (Inl e, batch_exit w1)
      | (Inr v, w1) \<Rightarrow> run_ops ops (batch_exit w1))"

section \<open>Derived containers\<close>

text \<open>\<open>shallow(a, b)\<close> on two values.\<close>

definition isArray :: "val \<Rightarrow> bool" where
  "isArray a = (case a of Arr i xs \<Rightarrow> True | _ \<Rightarrow> False)"

definition isDate :: "val \<Rightarrow> bool" where
  "isDate a = (case a of Date i t \<Rightarrow> True | _ \<Rightarrow> False)"

definition isObject :: "val \<Rightarrow> bool" where
  "isObject a = (case a of Obj i kvs \<Rightarrow> True | _ \<Rightarrow> False)"

definition keys :: "val \<Rightarrow> string list" where
  "keys a = (case a of Obj i kvs \<Rightarrow> map fst kvs | _ \<Rightarrow> [])"

definition shallow :: "val \<Rightarrow> val \<Rightarrow> bool" where
  "shallow a b =
     (if strict_eq a b then True
      else if (truthy a \<and> \<not> truthy b) \<or> (truthy b \<and> \<not> truthy a) then False
      else if \<not> truthy a \<and> \<not> truthy b then False
      else if isArray a \<and> isArray b then
        (case (a, b) of
           (Arr i xs, Arr j ys) \<Rightarrow> length xs = length ys \<and> list_all2 strict_eq xs ys
         | _ \<Rightarrow> False)
      else if isArray a \<or> isArray b then False
      else if isDate a \<and> isDate b then
        (case (a, b) of (Date i s, Date j t) \<Rightarrow> s = t | _ \<Rightarrow> False)
      else if isDate a \<or> isDate b then False
      else if isObject a \<and> isObject b then
        list_all (\<lambda>k. strict_eq (get_prop a k) (get_prop b k)) (keys a) \<and>
        list_all (\<lambda>k. strict_eq (get_prop a k) (get_prop b k)) (keys b)
      else False)"

text \<open>
  \<open>shallow(next, prev)\<close> when the selector returned a promise: an object without
  enumerable keys, so only the second loop reads anything.
\<close>

definition shallow_promise :: "val \<Rightarrow> bool" where
  "shallow_promise b =
     (if \<not> truthy b then False
      else if isArray b then False
      else if isDate b then False
      else if isObject b then list_all (\<lambda>k. strict_eq Undefined (get_prop b k)) (keys b)
      else False)"

text \<open>
  A derived container: its own container, the entries \<open>[key, source]\<close>, the selector and
  the mode of the options, and the unsubscribe functions of its source subscriptions.
\<close>

record linked =
  l_blok :: nat
  l_single :: bool
  l_entries :: "(string \<times> nat) list"
  l_selector :: "val \<Rightarrow> val \<Rightarrow> fresult"
  l_mode :: "mode option"
  unsubscribes :: "(nat \<times> unsub_info) list"

text \<open>\<open>const forever = new Promise(() => {})\<close>: promise number 0, which never settles.\<close>

definition forever :: nat where
  "forever = 0"

text \<open>The counting loop of \<open>handleChange\<close>: \<open>(loadingCount, errorCount, firstError)\<close>.\<close>

definition count_step :: "world \<Rightarrow> nat \<times> nat \<times> val \<Rightarrow> string \<times> nat \<Rightarrow> nat \<times> nat \<times> val" where
  "count_step w acc e =
     (case acc of (loadingCount, errorCount, firstError) \<Rightarrow>
        (let st = state (bloks w (snd e))
         in if s_loading st then (loadingCount + 1, errorCount, firstError)
            else if truthy (s_error st)
            then (loadingCount, errorCount + 1,
                  if \<not> truthy firstError then s_error st else firstError)
            else (loadingCount, errorCount, firstError)))"

definition count_sources :: "world \<Rightarrow> (string \<times> nat) list \<Rightarrow> nat \<times> nat \<times> val" where
  "count_sources w entries = foldl (count_step w) (0, 0, Undefined) entries"

text \<open>
  The updater of the third branch. It reads \<open>data\<close> of every source, which runs their
  \<open>init\<close>, builds the selector's argument (the data of the single source, or a new
  object from the entries), and keeps \<open>prev\<close> when the result is shallow-equal to it.
\<close>

definition source_values :: "linked \<Rightarrow> world \<Rightarrow> val \<times> world" where
  "source_values lk w =
     (let w1 = fold (\<lambda>e. init (snd e)) (l_entries lk) w
      in if l_single lk
         then (s_data (state (bloks w1 (snd (hd (l_entries lk))))), w1)
         else (Obj (fresh w1) (map (\<lambda>e. (fst e, s_data (state (bloks w1 (snd e))))) (l_entries lk)),
               w1\<lparr>fresh := Suc (fresh w1)\<rparr>))"

definition select :: "linked \<Rightarrow> val \<Rightarrow> val \<Rightarrow> fresult" where
  "select lk arg prev =
     (case l_selector lk arg prev of
        Throw e \<Rightarrow> Throw e
      | Return (PVal next) \<Rightarrow> if shallow next prev then Return (PVal prev) else Return (PVal next)
      | Return (PPromise p) \<Rightarrow>
          if shallow_promise prev then Return (PVal prev) else Return (PPromise p))"

text \<open>
  Whether the mode runs its callback, and with it the updater: \<open>droppable\<close> does when no
  token is stored. When it does not, the sources are not read.
\<close>

definition proceeds :: "mode option \<Rightarrow> nat \<Rightarrow> world \<Rightarrow> bool" where
  "proceeds md c w =
     (case md of None \<Rightarrow> True | Some Droppable \<Rightarrow> updatingToken (bloks w c) = None)"

definition handleChange :: "linked \<Rightarrow> world \<Rightarrow> world" where
  "handleChange lk w =
     (case count_sources w (l_entries lk) of (loadingCount, errorCount, firstError) \<Rightarrow>
        if errorCount = length (l_entries lk)
        then set_blok (l_blok lk) (Fn (\<lambda>prev. Throw firstError)) None w
        else if loadingCount \<noteq> 0
        then set_blok (l_blok lk) (Plain (PPromise forever)) None w
        else (let (arg, w1) = (if proceeds (l_mode lk) (l_blok lk) w then source_values lk w
                               else (Undefined, w))
              in set_blok (l_blok lk) (Fn (select lk arg)) (l_mode lk) w1))"

text \<open>
  \<open>from\<close>: subscribe \<open>handleChange\<close> to every source, create the container with
  \<open>undefined\<close>, run \<open>handleChange\<close> once, and replace \<open>dispose\<close>.
\<close>

definition subscribe_all :: "nat \<Rightarrow> (string \<times> nat) list \<Rightarrow> world \<Rightarrow> (nat \<times> unsub_info) list \<times> world" where
  "subscribe_all d entries w =
     fold (\<lambda>e (us, w'). (case listen (snd e) (Linked d) w' of (u, w'') \<Rightarrow> (us @ [(snd e, u)], w'')))
          entries ([], w)"

definition from_sources ::
  "bool \<Rightarrow> (string \<times> nat) list \<Rightarrow> (val \<Rightarrow> val \<Rightarrow> fresult) \<Rightarrow> options \<Rightarrow> mode option \<Rightarrow> world
     \<Rightarrow> linked \<times> world" where
  "from_sources single entries selector opts md w =
     (let (us, w1) = subscribe_all (fresh w) entries w;
          (d, w2) = create (Plain (PVal Undefined)) opts w1;
          lk = \<lparr>l_blok = d, l_single = single, l_entries = entries, l_selector = selector,
                l_mode = md, unsubscribes = us\<rparr>
      in (lk, handleChange lk w2))"

text \<open>
  The \<open>dispose\<close> that \<open>from\<close> assigns over the container's own: it calls and drops the
  unsubscribe functions, and nothing else.
\<close>

definition dispose_linked :: "linked \<Rightarrow> world \<Rightarrow> linked \<times> world" where
  "dispose_linked lk w =
     (lk\<lparr>unsubscribes := []\<rparr>,
      fold (\<lambda>(src, u). upd_blok src (unsubscribe (Linked (l_blok lk)) u)) (unsubscribes lk) w)"

section \<open>Scenarios and auxiliary notions\<close>

text \<open>
  A container created with \<open>0\<close> (it is container 1) and one listener of a user, and the
  same container after \<open>set(promise 7)\<close>, which leaves it loading.
\<close>

definition settled_world :: world where
  "settled_world =
     (let (c, w) = create (Plain (PVal (Num 0))) no_options world0;
          (u, w1) = listen c (External 1) w
      in w1)"

definition loading_world :: world where
  "loading_world = set_blok 1 (Plain (PPromise 7)) None settled_world"

text \<open>An error object whose \<open>name\<close> is \<open>AbortError\<close>.\<close>

definition abortError :: val where
  "abortError = Obj 100 [(''name'', Str ''AbortError'')]"

text \<open>
  Two promises handed to \<open>set\<close> one after the other, 7 and then 8, before either
  settles.
\<close>

definition two_pending :: world where
  "two_pending =
     set_blok 1 (Plain (PPromise 8)) None (set_blok 1 (Plain (PPromise 7)) None settled_world)"

text \<open>
  \<open>set(promise 7, droppable())\<close> on the settled container, and the promise fulfilled
  with \<open>1\<close>.
\<close>

definition droppable_settled :: world where
  "droppable_settled =
     settle 7 (Inr (Num 1)) (set_blok 1 (Plain (PPromise 7)) (Some Droppable) settled_world)"

text \<open>
  A container derived from container 1 with the identity as selector (it is container
  4), then a listener of a user on it, then its \<open>dispose\<close>.
\<close>

definition derived :: "linked \<times> world" where
  "derived =
     from_sources True [(''value'', 1)] (\<lambda>arg prev. Return (PVal arg)) no_options None
       settled_world"

definition derived_disposed :: world where
  "derived_disposed =
     (let (lk, w) = derived; (u, w1) = listen 4 (External 2) w
      in snd (dispose_linked lk w1))"

text \<open>
  A container created with \<open>1\<close> and the hydration hook of slot \<open>counter\<close>, a first
  \<open>dehydrate()\<close>, and then a batch that sets the container to \<open>2\<close> and hands it a
  promise.
\<close>

definition hydrated_world :: world where
  "hydrated_world =
     snd (dehydrate (snd (create (Plain (PVal (Num 1)))
                       (no_options\<lparr>o_hydrate := Some (Str ''counter'', None)\<rparr>) world0)))"

definition stale_world :: world where
  "stale_world =
     snd (batch (run_ops [SetOp 1 (Plain (PVal (Num 2))) None,
                          SetOp 1 (Plain (PPromise 7)) None]) hydrated_world)"

text \<open>The same store with a family member attached to slot \<open>counters\<close>, member \<open>1\<close>.\<close>

definition family_world :: world where
  "family_world =
     snd (create (Plain (PVal (Num 7)))
            (no_options\<lparr>o_hydrate := Some (Str ''counters'', Some (Num 1))\<rparr>) hydrated_world)"






text \<open>The number of runs of the emitter of container \<open>c\<close> recorded in a log.\<close>

definition is_emit :: "nat \<Rightarrow> event \<Rightarrow> bool" where
  "is_emit c e = (case e of Emit c' hs \<Rightarrow> c' = c | _ \<Rightarrow> False)"

definition emits :: "nat \<Rightarrow> event list \<Rightarrow> nat" where
  "emits c evs = length (filter (is_emit c) evs)"







text \<open>No pending reaction holds a controller.\<close>

definition cc_free :: "world \<Rightarrow> bool" where
  "cc_free w = list_all (\<lambda>r. r_cc r = None) (reactions w)"

text \<open>
  What the users and the host do to a world over time: calls of \<open>set\<close> and
  settlements of promises, in any order.
\<close>

datatype step = DoSet nat upd "mode option" | DoSettle nat "val + val"

fun run_steps :: "step list \<Rightarrow> world \<Rightarrow> world" where
  "run_steps [] w = w"
| "run_steps (DoSet c u md # ss) w = run_steps ss (set_blok c u md w)"
| "run_steps (DoSettle p out # ss) w = run_steps ss (settle p out w)"

section \<open>Basic facts\<close>

lemmas eval_defs =
  create_def world0_def new_blok_def no_options_def is_function_def hydrate_def empty_blok_def
  set_blok_def set_nomode_def set_initialized_def set_plain_def cc_done_def
  changeState_def merge_change_def notify_def emit_def upd_blok_def listen_def add_def
  add_info_def Let_def settled_world_def loading_world_def
  settle_def run_reaction_def on_rejected_def on_fulfilled_def isAbortError_def abortError_def
  two_pending_def wait_def droppable_settled_def droppable_def controller_done_def
  derived_def derived_disposed_def from_sources_def subscribe_all_def handleChange_def
  count_sources_def count_step_def proceeds_def source_values_def select_def init_def
  dispose_linked_def unsubscribe_def splice1_def dispose_def clear_def clearTimeout_def
  shallow_def hydrated_world_def stale_world_def getHydrateOf_def dehydrate_def
  dehydrate_items_def dehydrate_members_def emitIfAny_dehydrate_def batch_def batch_enter_def
  batch_exit_def family_world_def

lemma strict_eq_refl [simp]: "strict_eq v v"
  by (cases v) auto

lemma state_unsubscribe [simp]: "state (unsubscribe h u b) = state b"
  by (simp add: unsubscribe_def split: option.splits)

lemma bloks_emitIfAny [simp]: "bloks (emitIfAny_dehydrate w) = bloks w"
  by (simp add: emitIfAny_dehydrate_def dehydrate_def Let_def split: option.splits prod.splits)

lemma state_run_handler [simp]:
  "state (bloks (run_handler c h w) c') = state (bloks w c')"
  by (cases h) (simp_all add: Let_def upd_blok_def)

lemma state_fold_run_handler [simp]:
  "state (bloks (fold (run_handler c) hs w) c') = state (bloks w c')"
  by (induction hs arbitrary: w) simp_all

lemma state_emit [simp]: "state (bloks (emit c w) c') = state (bloks w c')"
  by (simp add: emit_def Let_def)

lemma state_notify [simp]: "state (bloks (notify c w) c') = state (bloks w c')"
  by (simp add: notify_def)

lemma state_cc_done [simp]: "state (bloks (cc_done cc c w) c') = state (bloks w c')"
  by (simp add: cc_done_def controller_done_def upd_blok_def split: option.splits)

lemma fresh_cc_done [simp]: "fresh (cc_done cc c w) = fresh w"
  by (simp add: cc_done_def controller_done_def upd_blok_def split: option.splits)

subsection \<open>The cache of the hydration store\<close>


lemma hydratedData_emitIfAny [simp]:
  "hydratedData (hyd (emitIfAny_dehydrate w)) = hydratedData (hyd w)"
  by (simp add: emitIfAny_dehydrate_def dehydrate_def Let_def split: option.splits prod.splits)

lemma hydratedData_run_handler [simp]:
  "hydratedData (hyd (run_handler c h w)) = hydratedData (hyd w)"
  by (cases h) (simp_all add: Let_def upd_blok_def)


lemma fresh_emitIfAny: "fresh w \<le> fresh (emitIfAny_dehydrate w)"
  by (simp add: emitIfAny_dehydrate_def dehydrate_def Let_def split: option.splits prod.splits)

lemma fresh_run_handler: "fresh w \<le> fresh (run_handler c h w)"
proof (cases h)
  case (HydL a)
  show ?thesis
    using fresh_emitIfAny
      [of "w\<lparr>hyd := (hyd w)\<lparr>prevData := (prevData (hyd w))(a := Some (s_data (state (bloks w c)))),
                              lastDehyratedData := None\<rparr>\<rparr>"]
    by (simp add: HydL Let_def)
qed (simp_all add: Let_def upd_blok_def)











subsection \<open>Frame and state lemmas for set and handleChange\<close>











lemma state_changeState_same:
  "state (bloks (changeState c ch w) c) =
     (let st = state (bloks w c); n = merge_change st ch
      in if strict_eq (s_data st) (s_data n) \<and> strict_eq (s_error st) (s_error n) \<and>
            s_loading st = s_loading n
         then st else n\<lparr>s_ref := fresh w\<rparr>)"
  by (simp add: changeState_def Let_def upd_blok_def)













subsection \<open>Inside a batch\<close>



















lemma mutationCount_run_handler [simp]:
  "mutationCount (run_handler c h w) = mutationCount w"
  by (cases h)
     (simp_all add: Let_def upd_blok_def emitIfAny_dehydrate_def dehydrate_def
        split: option.splits prod.splits)

lemma emits_append [simp]: "emits c (xs @ ys) = emits c xs + emits c ys"
  by (simp add: emits_def)

lemma emits_run_handler [simp]: "emits c' (log (run_handler c h w)) = emits c' (log w)"
  by (cases h)
     (simp_all add: Let_def upd_blok_def emitIfAny_dehydrate_def dehydrate_def emits_def
        is_emit_def split: option.splits prod.splits)




lemma state_fold_notify [simp]: "state (bloks (fold notify cs w) c) = state (bloks w c)"
  by (induction cs arbitrary: w) simp_all


subsection \<open>Promises and their reactions\<close>

lemma reactions_emitIfAny [simp]: "reactions (emitIfAny_dehydrate w) = reactions w"
  by (simp add: emitIfAny_dehydrate_def dehydrate_def Let_def split: option.splits prod.splits)

lemma reactions_run_handler [simp]: "reactions (run_handler c h w) = reactions w"
  by (cases h) (simp_all add: Let_def upd_blok_def)

lemma reactions_fold_run_handler [simp]: "reactions (fold (run_handler c) hs w) = reactions w"
  by (induction hs arbitrary: w) (simp_all del: run_handler.simps)

lemma reactions_notify [simp]: "reactions (notify c w) = reactions w"
  by (simp add: notify_def emit_def Let_def)

lemma reactions_changeState [simp]: "reactions (changeState c ch w) = reactions w"
  by (simp add: changeState_def Let_def upd_blok_def)

lemma fresh_fold_run_handler: "fresh w \<le> fresh (fold (run_handler c) hs w)"
proof (induction hs arbitrary: w)
  case Nil then show ?case by simp
next
  case (Cons h hs)
  have "fresh w \<le> fresh (run_handler c h w)" by (rule fresh_run_handler)
  also have "\<dots> \<le> fresh (fold (run_handler c) hs (run_handler c h w))" by (rule Cons.IH)
  finally show ?case by (simp del: run_handler.simps)
qed

lemma fresh_notify: "fresh w \<le> fresh (notify c w)"
  using fresh_fold_run_handler [of "w\<lparr>log := log w @ [Emit c (handlers (bloks w c))]\<rparr>" c]
  by (simp add: notify_def emit_def Let_def)

lemma fresh_changeState: "fresh w \<le> fresh (changeState c ch w)"
proof -
  have "Suc (fresh w) \<le> fresh (notify c (w'\<lparr>fresh := Suc (fresh w)\<rparr>))" for w'
    using fresh_notify [of "w'\<lparr>fresh := Suc (fresh w)\<rparr>" c] by simp
  then show ?thesis
    by (auto simp: changeState_def Let_def intro: Suc_leD)
qed

lemma ref_changeState:
  assumes "s_ref (state (bloks w c)) < fresh w"
  shows "s_ref (state (bloks (changeState c ch w) c)) < fresh (changeState c ch w)"
proof -
  let ?st = "state (bloks w c)" and ?n = "merge_change (state (bloks w c)) ch"
  show ?thesis
  proof (cases "strict_eq (s_data ?st) (s_data ?n) \<and> strict_eq (s_error ?st) (s_error ?n) \<and>
                s_loading ?st = s_loading ?n")
    case True
    have "changeState c ch w = w"
      using True by (simp add: changeState_def Let_def)
    then show ?thesis using assms by simp
  next
    case False
    let ?w1 = "(upd_blok c (\<lambda>b. b\<lparr>state := ?n\<lparr>s_ref := fresh w\<rparr>\<rparr>) w)\<lparr>fresh := Suc (fresh w)\<rparr>"
    have e: "changeState c ch w = notify c ?w1"
      by (simp only: changeState_def Let_def False if_False)
    have "s_ref (state (bloks (notify c ?w1) c)) = fresh w" by (simp add: upd_blok_def)
    moreover have "Suc (fresh w) \<le> fresh (notify c ?w1)"
      using fresh_notify [of ?w1 c] by simp
    ultimately show ?thesis unfolding e by simp
  qed
qed

lemma set_promise_state:
  assumes "s_ref (state (bloks w c)) < fresh w"
  shows "s_loading (state (bloks (set_blok c (Plain (PPromise p)) None w) c)) \<and>
         strict_eq (s_error (state (bloks (set_blok c (Plain (PPromise p)) None w) c))) Undefined \<and>
         s_data (state (bloks (set_blok c (Plain (PPromise p)) None w) c)) = s_data (state (bloks w c)) \<and>
         s_ref (state (bloks (set_blok c (Plain (PPromise p)) None w) c)) <
           fresh (set_blok c (Plain (PPromise p)) None w) \<and>
         reactions (set_blok c (Plain (PPromise p)) None w) =
           reactions w @ [\<lparr>r_promise = p, r_blok = c,
              r_snapshot = s_ref (state (bloks (set_blok c (Plain (PPromise p)) None w) c)),
              r_cc = None\<rparr>]"
proof -
  let ?ch = "\<lparr>c_data = None, c_loading = Some True, c_error = Some Undefined\<rparr>"
  let ?w1 = "changeState c ?ch w"
  have e: "set_blok c (Plain (PPromise p)) None w =
      ?w1\<lparr>reactions := reactions ?w1 @
        [\<lparr>r_promise = p, r_blok = c, r_snapshot = s_ref (state (bloks ?w1 c)), r_cc = None\<rparr>]\<rparr>"
    by (simp add: set_blok_def set_nomode_def set_initialized_def set_plain_def Let_def)
  have r: "s_ref (state (bloks ?w1 c)) < fresh ?w1"
    by (rule ref_changeState [OF assms])
  show ?thesis
    unfolding e using r
    by (simp add: state_changeState_same merge_change_def Let_def)
qed

lemma set_promise_again:
  assumes "s_loading (state (bloks w c))" "strict_eq (s_error (state (bloks w c))) Undefined"
  shows "set_blok c (Plain (PPromise p)) None w =
     w\<lparr>reactions := reactions w @
        [\<lparr>r_promise = p, r_blok = c, r_snapshot = s_ref (state (bloks w c)), r_cc = None\<rparr>]\<rparr>"
  using assms
  by (simp add: set_blok_def set_nomode_def set_initialized_def set_plain_def Let_def
        changeState_def merge_change_def)

lemma fulfilled_current:
  assumes "r_snapshot r = s_ref (state (bloks w (r_blok r)))" "r_cc r = None"
    "s_loading (state (bloks w (r_blok r)))"
  shows "state (bloks (on_fulfilled r v w) (r_blok r)) =
           (state (bloks w (r_blok r)))\<lparr>s_data := v, s_loading := False, s_error := Undefined,
              s_ref := fresh w\<rparr> \<and>
         reactions (on_fulfilled r v w) = reactions w"
  using assms
  by (simp add: on_fulfilled_def cc_done_def Let_def state_changeState_same merge_change_def)

lemma fulfilled_stale:
  assumes "r_snapshot r \<noteq> s_ref (state (bloks w (r_blok r)))" "r_cc r = None"
  shows "on_fulfilled r v w = w"
  using assms by (simp add: on_fulfilled_def cc_done_def Let_def)

lemma first_settlement_wins:
  assumes l: "s_loading (state (bloks W c))" and f: "s_ref (state (bloks W c)) < fresh W"
    and ne: "p \<noteq> q"
    and rp: "filter (\<lambda>r. r_promise r = p) (reactions W) =
       [\<lparr>r_promise = p, r_blok = c, r_snapshot = s_ref (state (bloks W c)), r_cc = None\<rparr>]"
    and rq: "filter (\<lambda>r. r_promise r = q) (reactions W) =
       [\<lparr>r_promise = q, r_blok = c, r_snapshot = s_ref (state (bloks W c)), r_cc = None\<rparr>]"
  shows "s_data (state (bloks (settle q (Inr v') (settle p (Inr v) W)) c)) = v"
proof -
  let ?s = "s_ref (state (bloks W c))"
  let ?rp = "\<lparr>r_promise = p, r_blok = c, r_snapshot = ?s, r_cc = None\<rparr>"
  let ?rq = "\<lparr>r_promise = q, r_blok = c, r_snapshot = ?s, r_cc = None\<rparr>"
  let ?W1 = "W\<lparr>reactions := filter (\<lambda>r. r_promise r \<noteq> p) (reactions W)\<rparr>"
  let ?W2 = "on_fulfilled ?rp v ?W1"
  have s1: "settle p (Inr v) W = ?W2"
    by (simp add: settle_def Let_def rp run_reaction_def)
  have f2: "state (bloks ?W2 c) =
      (state (bloks W c))\<lparr>s_data := v, s_loading := False, s_error := Undefined, s_ref := fresh W\<rparr>"
    and r2: "reactions ?W2 = filter (\<lambda>r. r_promise r \<noteq> p) (reactions W)"
    using fulfilled_current [of ?rp ?W1 v] l by simp_all
  have "filter (\<lambda>r. r_promise r = q) (filter (\<lambda>r. r_promise r \<noteq> p) (reactions W)) =
        filter (\<lambda>r. r_promise r = q) (reactions W)"
    using ne by (auto intro: filter_cong)
  then have fq: "filter (\<lambda>r. r_promise r = q) (reactions ?W2) = [?rq]"
    by (simp add: r2 rq)
  let ?W3 = "?W2\<lparr>reactions := filter (\<lambda>r. r_promise r \<noteq> q) (reactions ?W2)\<rparr>"
  have s2: "settle q (Inr v') ?W2 = on_fulfilled ?rq v' ?W3"
    by (simp add: settle_def Let_def fq run_reaction_def)
  have "?s \<noteq> fresh W" using f by simp
  then have "on_fulfilled ?rq v' ?W3 = ?W3"
    using f2 by (intro fulfilled_stale) simp_all
  then show ?thesis
    using f2 by (simp add: s1 s2)
qed

lemma two_pending_reactions:
  assumes f: "s_ref (state (bloks w c)) < fresh w" and ne: "pa \<noteq> pb"
    and no: "\<forall>r \<in> set (reactions w). r_promise r \<noteq> pa \<and> r_promise r \<noteq> pb"
  defines "W \<equiv> set_blok c (Plain (PPromise pb)) None (set_blok c (Plain (PPromise pa)) None w)"
  shows "s_loading (state (bloks W c)) \<and> s_ref (state (bloks W c)) < fresh W \<and>
     filter (\<lambda>r. r_promise r = pa) (reactions W) =
       [\<lparr>r_promise = pa, r_blok = c, r_snapshot = s_ref (state (bloks W c)), r_cc = None\<rparr>] \<and>
     filter (\<lambda>r. r_promise r = pb) (reactions W) =
       [\<lparr>r_promise = pb, r_blok = c, r_snapshot = s_ref (state (bloks W c)), r_cc = None\<rparr>]"
proof -
  let ?w1 = "set_blok c (Plain (PPromise pa)) None w"
  let ?s = "s_ref (state (bloks ?w1 c))"
  let ?ra = "\<lparr>r_promise = pa, r_blok = c, r_snapshot = ?s, r_cc = None\<rparr>"
  let ?rb = "\<lparr>r_promise = pb, r_blok = c, r_snapshot = ?s, r_cc = None\<rparr>"
  note s1 = set_promise_state [OF f, of pa]
  have r1: "reactions ?w1 = reactions w @ [?ra]" using s1 by simp
  have w2: "W = ?w1\<lparr>reactions := reactions w @ [?ra, ?rb]\<rparr>"
    unfolding W_def using set_promise_again [of ?w1 c pb] s1 by (simp add: r1)
  have nf: "filter (\<lambda>r. r_promise r = pb) (reactions w) = []"
    "filter (\<lambda>r. r_promise r = pa) (reactions w) = []"
    using no by (auto simp: filter_empty_conv)
  show ?thesis
    using s1 nf ne by (simp add: w2)
qed

subsection \<open>The token of droppable\<close>

lemma token_unsubscribe [simp]: "updatingToken (unsubscribe h u b) = updatingToken b"
  by (simp add: unsubscribe_def split: option.splits)

lemma token_run_handler [simp]:
  "updatingToken (bloks (run_handler c h w) c') = updatingToken (bloks w c')"
  by (cases h) (simp_all add: Let_def upd_blok_def)

lemma token_fold_run_handler [simp]:
  "updatingToken (bloks (fold (run_handler c) hs w) c') = updatingToken (bloks w c')"
  by (induction hs arbitrary: w) (simp_all del: run_handler.simps)

lemma token_notify [simp]: "updatingToken (bloks (notify c w) c') = updatingToken (bloks w c')"
  by (simp add: notify_def emit_def Let_def)

lemma token_changeState [simp]:
  "updatingToken (bloks (changeState c ch w) c') = updatingToken (bloks w c')"
  by (simp add: changeState_def Let_def upd_blok_def)

lemma token_set_plain [simp]:
  "updatingToken (bloks (set_plain c None p w) c') = updatingToken (bloks w c')"
  by (cases p) (simp_all add: set_plain_def cc_done_def Let_def)

lemma token_set_initialized [simp]:
  "updatingToken (bloks (set_initialized c None u w) c') = updatingToken (bloks w c')"
  by (simp add: set_initialized_def split: upd.splits fresult.splits)

lemma token_init [simp]: "updatingToken (bloks (init c w) c') = updatingToken (bloks w c')"
  by (simp add: init_def Let_def next_refresh_def clearTimeout_def upd_blok_def
        split: option.splits)

lemma token_set_nomode [simp]:
  "updatingToken (bloks (set_nomode c u w) c') = updatingToken (bloks w c')"
  by (simp add: set_nomode_def split: upd.splits)

lemma cc_free_changeState [simp]: "cc_free (changeState c ch w) = cc_free w"
  by (simp add: cc_free_def)

lemma cc_free_set_plain: "cc_free w \<Longrightarrow> cc_free (set_plain c None p w)"
  by (cases p) (simp_all add: set_plain_def cc_done_def Let_def, simp_all add: cc_free_def)

lemma cc_free_set_initialized: "cc_free w \<Longrightarrow> cc_free (set_initialized c None u w)"
  by (simp add: set_initialized_def cc_free_set_plain split: upd.splits fresult.splits)

lemma cc_free_frame: "reactions w' = reactions w \<Longrightarrow> cc_free w' = cc_free w"
  by (simp add: cc_free_def)

lemma cc_free_init: "cc_free w \<Longrightarrow> cc_free (init c w)"
proof -
  assume a: "cc_free w"
  let ?w1 = "upd_blok c (\<lambda>b. b\<lparr>initialized := True\<rparr>) w"
  have "cc_free ?w1" using a by (simp add: cc_free_def upd_blok_def)
  then have 2: "cc_free (set_initialized c None (initialData (bloks ?w1 c)) ?w1)"
    by (rule cc_free_set_initialized)
  then have 3: "cc_free (next_refresh c (set_initialized c None (initialData (bloks ?w1 c)) ?w1))"
    by (simp add: cc_free_def next_refresh_def clearTimeout_def Let_def upd_blok_def
          split: option.splits)
  show ?thesis
    using a 2 3 by (simp add: init_def Let_def split: option.splits)
qed

lemma cc_free_set_nomode: "cc_free w \<Longrightarrow> cc_free (set_nomode c u w)"
  by (simp add: set_nomode_def cc_free_init cc_free_set_initialized split: upd.splits)

lemma cc_free_set_blok: "cc_free w \<Longrightarrow> cc_free (set_blok c u md w)"
proof (cases md)
  case None
  assume "cc_free w"
  then show ?thesis by (simp add: set_blok_def None cc_free_set_nomode)
next
  case (Some m)
  assume a: "cc_free w"
  let ?w1 = "(upd_blok c (\<lambda>b. b\<lparr>updatingToken := Some (fresh w)\<rparr>) w)\<lparr>fresh := Suc (fresh w)\<rparr>"
  have "cc_free ?w1" using a by (simp add: cc_free_def upd_blok_def)
  then have "cc_free (set_nomode c u ?w1)" by (rule cc_free_set_nomode)
  then show ?thesis
    using a Some
    by (cases m)
       (simp add: set_blok_def droppable_def Let_def cc_free_def upd_blok_def
          split: option.splits)
qed

lemma locked_set_blok:
  assumes "updatingToken (bloks w c) = Some t"
  shows "updatingToken (bloks (set_blok c' u md w) c) = Some t"
proof (cases md)
  case None
  then show ?thesis using assms by (simp add: set_blok_def)
next
  case (Some m)
  show ?thesis
  proof (cases "c' = c")
    case True
    then show ?thesis
      using assms Some by (cases m) (simp add: set_blok_def droppable_def upd_blok_def)
  next
    case False
    then show ?thesis
      using assms Some
      by (cases m)
         (simp add: set_blok_def droppable_def Let_def upd_blok_def split: option.splits)
  qed
qed

lemma locked_run_reaction:
  assumes "r_cc r = None"
  shows "updatingToken (bloks (run_reaction out r w) c) = updatingToken (bloks w c)"
  using assms
  by (cases out) (simp_all add: run_reaction_def on_fulfilled_def on_rejected_def cc_done_def Let_def)

lemma reactions_run_reaction:
  assumes "r_cc r = None"
  shows "reactions (run_reaction out r w) = reactions w"
  using assms
  by (cases out) (simp_all add: run_reaction_def on_fulfilled_def on_rejected_def cc_done_def Let_def)

lemma locked_fold_reactions:
  assumes "list_all (\<lambda>r. r_cc r = None) rs"
  shows "updatingToken (bloks (fold (run_reaction out) rs w) c) = updatingToken (bloks w c) \<and>
         reactions (fold (run_reaction out) rs w) = reactions w"
  using assms
  by (induction rs arbitrary: w) (simp_all add: locked_run_reaction reactions_run_reaction)

lemma locked_settle:
  assumes "cc_free w"
  shows "updatingToken (bloks (settle p out w) c) = updatingToken (bloks w c) \<and>
         cc_free (settle p out w)"
proof -
  have a: "list_all (\<lambda>r. r_cc r = None) (filter (\<lambda>r. r_promise r = p) (reactions w))"
    and b: "list_all (\<lambda>r. r_cc r = None) (filter (\<lambda>r. r_promise r \<noteq> p) (reactions w))"
    using assms by (simp_all add: cc_free_def list_all_iff)
  show ?thesis
    using locked_fold_reactions [OF a, of out
        "w\<lparr>reactions := filter (\<lambda>r. r_promise r \<noteq> p) (reactions w)\<rparr>" c] b
    by (simp add: settle_def Let_def cc_free_def)
qed


section \<open>Equality stability of set\<close>




section \<open>Rejection of a promise handed to set\<close>

text \<open>
  C7 (amended). When the promise handed to \<open>set\<close> is rejected and the state object is
  still the one of the snapshot (a loading state), the container leaves loading, keeps
  its data, and its error becomes the rejection reason, or \<open>undefined\<close> when the reason's
  name is \<open>AbortError\<close>; in both cases the change goes through \<open>notify\<close>. A rejection that
  finds another state object changes nothing but the controller's \<open>done\<close>.
\<close>

theorem rejection_stored_and_notified:
  "(r_snapshot r = s_ref (state (bloks w (r_blok r))) \<and> s_loading (state (bloks w (r_blok r))) \<longrightarrow>
      on_rejected r e w =
        notify (r_blok r)
          ((upd_blok (r_blok r)
              (\<lambda>b. b\<lparr>state := (state (bloks w (r_blok r)))
                              \<lparr>s_loading := False,
                               s_error := (if isAbortError e then Undefined else e),
                               s_ref := fresh w\<rparr>\<rparr>)
              (cc_done (r_cc r) (r_blok r) w))\<lparr>fresh := Suc (fresh w)\<rparr>)) \<and>
   (r_snapshot r \<noteq> s_ref (state (bloks w (r_blok r))) \<longrightarrow>
      on_rejected r e w = cc_done (r_cc r) (r_blok r) w)"
  by (simp add: on_rejected_def changeState_def Let_def merge_change_def upd_blok_def
        cc_done_def controller_done_def split: option.splits)

theorem rejection_stored_and_notified_witness:
  "(let r = \<lparr>r_promise = 7, r_blok = 1, r_snapshot = 4, r_cc = None\<rparr>; e = Str ''boom''
    in r_snapshot r = s_ref (state (bloks loading_world (r_blok r))) \<and>
       s_loading (state (bloks loading_world (r_blok r))) \<and>
       on_rejected r e loading_world =
         notify 1 ((upd_blok 1
              (\<lambda>b. b\<lparr>state := (state (bloks loading_world 1))
                              \<lparr>s_loading := False, s_error := e, s_ref := fresh loading_world\<rparr>\<rparr>)
              loading_world)\<lparr>fresh := Suc (fresh loading_world)\<rparr>)) \<and>
   (let r = \<lparr>r_promise = 7, r_blok = 1, r_snapshot = 3, r_cc = None\<rparr>
    in r_snapshot r \<noteq> s_ref (state (bloks loading_world (r_blok r))) \<and>
       on_rejected r (Str ''boom'') loading_world = loading_world)"
proof -
  have st: "s_ref (state (bloks loading_world 1)) = 4" "s_loading (state (bloks loading_world 1))"
    by (simp_all add: eval_defs)
  have na: "\<not> isAbortError (Str ''boom'')"
    by (simp add: isAbortError_def)
  show ?thesis
    using rejection_stored_and_notified
            [of "\<lparr>r_promise = 7, r_blok = 1, r_snapshot = 4, r_cc = None\<rparr>" loading_world "Str ''boom''"]
          rejection_stored_and_notified
            [of "\<lparr>r_promise = 7, r_blok = 1, r_snapshot = 3, r_cc = None\<rparr>" loading_world "Str ''boom''"]
          st na
    by (simp add: Let_def cc_done_def)
qed

text \<open>
  The claim as stated fails on the second half: a rejection named \<open>AbortError\<close> is not
  stored, but the listeners are run again, since the container leaves loading.
\<close>

theorem abort_rejection_notifies:
  "isAbortError abortError \<and>
   s_error (state (bloks (settle 7 (Inl abortError) loading_world) 1)) = Undefined \<and>
   log (settle 7 (Inl abortError) loading_world) = log loading_world @ [Emit 1 [External 1]]"
  by (simp add: eval_defs)

section \<open>Competing promises\<close>

text \<open>
  C1. After \<open>set(promise 7)\<close> and \<open>set(promise 8)\<close> both reactions hold the same
  snapshot, because the second \<open>changeState({error: undefined, loading: true})\<close> finds
  nothing to change and keeps the state object. When promise 7 is fulfilled first, its
  value is stored, and the value of promise 8, the more recent \<open>set\<close>, is discarded.
\<close>

theorem earlier_set_wins_when_settled_first:
  "map r_snapshot (reactions two_pending) = [4, 4] \<and>
   s_data (state (bloks (settle 8 (Inr (Num 2)) (settle 7 (Inr (Num 1)) two_pending)) 1)) = Num 1"
  by (simp add: eval_defs)

text \<open>In the other order of settlement the more recent \<open>set\<close> wins.\<close>

lemma later_set_wins_when_settled_first:
  "s_data (state (bloks (settle 7 (Inr (Num 1)) (settle 8 (Inr (Num 2)) two_pending)) 1)) = Num 2"
  by (simp add: eval_defs)

text \<open>
  In general: when two promises are handed to \<open>set\<close> one after the other and nothing
  else is pending on them, the one that is fulfilled first provides the data, whichever
  was handed over last.
\<close>

lemma later_set_wins_in_general:
  assumes f: "s_ref (state (bloks w c)) < fresh w" and ne: "pa \<noteq> pb"
    and no: "\<forall>r \<in> set (reactions w). r_promise r \<noteq> pa \<and> r_promise r \<noteq> pb"
  shows "s_data (state (bloks
           (settle pa (Inr va)
              (settle pb (Inr vb)
                 (set_blok c (Plain (PPromise pb)) None
                    (set_blok c (Plain (PPromise pa)) None w)))) c)) = vb"
  using two_pending_reactions [OF f ne no] ne
  by (intro first_settlement_wins) simp_all

lemma earlier_set_wins_in_general:
  assumes f: "s_ref (state (bloks w c)) < fresh w" and ne: "pa \<noteq> pb"
    and no: "\<forall>r \<in> set (reactions w). r_promise r \<noteq> pa \<and> r_promise r \<noteq> pb"
  shows "s_data (state (bloks
           (settle pb (Inr vb)
              (settle pa (Inr va)
                 (set_blok c (Plain (PPromise pb)) None
                    (set_blok c (Plain (PPromise pa)) None w)))) c)) = va"
  using two_pending_reactions [OF f ne no] ne
  by (intro first_settlement_wins) simp_all



section \<open>wait\<close>

text \<open>
  C4. On a container that is neither loading nor holding an error, \<open>wait()\<close> returns a
  promise that is rejected from the start, with \<open>undefined\<close>.
\<close>

theorem wait_settled_without_error_rejects:
  "\<not> s_loading (state (bloks settled_world 1)) \<and>
   s_error (state (bloks settled_world 1)) = Undefined \<and>
   s_data (state (bloks settled_world 1)) = Num 0 \<and>
   fst (wait 1 settled_world) = 4 \<and>
   log (snd (wait 1 settled_world)) = log settled_world @ [Settled 4 (Inl Undefined)]"
  by (simp add: eval_defs)

text \<open>
  While the container is loading, \<open>wait()\<close> returns the cached promise again, and the
  promise is resolved with the data when the container settles.
\<close>

lemma wait_cached_while_loading:
  "s_loading (state (bloks w c)) \<Longrightarrow>
     wait c (snd (wait c w)) = (fst (wait c w), snd (wait c w))"
  by (simp add: wait_def Let_def upd_blok_def add_def split: option.splits)

lemma wait_resolves_on_settlement:
  "log (settle 7 (Inr (Num 5)) (snd (wait 1 loading_world))) =
     log loading_world @
       [Emit 1 [External 1, WaitL 5 \<lparr>initialIndex = 1, initialToken = 0\<rparr>],
        Settled 5 (Inr (Num 5))]"
  by (simp add: eval_defs)

section \<open>droppable\<close>

text \<open>
  C6. The controller \<open>droppable\<close> returns is stored in the \<open>cc\<close> of the invocation of
  \<open>set\<close> that received the mode; the handlers are registered by the invocation the
  callback makes, whose own \<open>cc\<close> is \<open>undefined\<close>, so \<open>done\<close> is never called. After the
  guarded promise has settled the token is still stored, and the next guarded \<open>set\<close> is
  dropped: it registers no reaction and the value of its promise never arrives.
\<close>

theorem droppable_stays_locked:
  "map r_cc (reactions (set_blok 1 (Plain (PPromise 7)) (Some Droppable) settled_world)) = [None] \<and>
   s_data (state (bloks droppable_settled 1)) = Num 1 \<and>
   \<not> s_loading (state (bloks droppable_settled 1)) \<and>
   updatingToken (bloks droppable_settled 1) = Some 4 \<and>
   reactions (set_blok 1 (Plain (PPromise 8)) (Some Droppable) droppable_settled) = [] \<and>
   state (bloks (settle 8 (Inr (Num 2))
                   (set_blok 1 (Plain (PPromise 8)) (Some Droppable) droppable_settled)) 1) =
     state (bloks droppable_settled 1)"
  by (simp add: eval_defs)

text \<open>
  In general: no reaction that \<open>set\<close> registers holds a controller, so once a token
  is stored no sequence of \<open>set\<close> calls and settlements removes it, and every guarded
  \<open>set\<close> on the container is dropped.
\<close>

lemma locked_forever:
  "cc_free w \<Longrightarrow> updatingToken (bloks w c) = Some t \<Longrightarrow>
     updatingToken (bloks (run_steps ss w) c) = Some t"
proof (induction ss w rule: run_steps.induct)
  case (1 w)
  then show ?case by simp
next
  case (2 c' u md ss w)
  then show ?case by (simp add: cc_free_set_blok locked_set_blok)
next
  case (3 p out ss w)
  then show ?case using locked_settle [of w p out c] by simp
qed

lemma dropped_while_locked:
  "updatingToken (bloks w c) = Some t \<Longrightarrow>
     set_blok c u (Some Droppable) w = upd_blok c (\<lambda>b. b\<lparr>concurrentController := None\<rparr>) w"
  by (simp add: set_blok_def droppable_def)


section \<open>dispose\<close>

text \<open>
  C8. \<open>dispose\<close> of a derived container unsubscribes from the source and does nothing
  else: the container is not marked disposed, its emitter keeps its handlers, and a
  later change still runs the listener registered before the disposal. \<open>dispose\<close> of a
  container made by \<open>create\<close> clears the emitter.
\<close>

theorem derived_dispose_keeps_listeners:
  "handlers (bloks (snd derived) 1) = [External 1, Linked 4] \<and>
   handlers (bloks derived_disposed 1) = [External 1] \<and>
   handlers (bloks derived_disposed 4) = [External 2] \<and>
   \<not> disposed (bloks derived_disposed 4) \<and>
   log (set_blok 4 (Plain (PVal (Num 5))) None derived_disposed) =
     log derived_disposed @ [Emit 4 [External 2]]"
  by (simp add: eval_defs)

lemma dispose_clears_listeners:
  "\<not> disposed (bloks w c) \<Longrightarrow>
     handlers (bloks (dispose c w) c) = [] \<and> disposed (bloks (dispose c w) c)"
  by (simp add: dispose_def clear_def clearTimeout_def upd_blok_def Let_def split: option.splits)

lemma dispose_idempotent: "dispose c (dispose c w) = dispose c w"
  by (simp add: dispose_def clear_def clearTimeout_def upd_blok_def Let_def split: option.splits)

text \<open>
  \<open>dispose\<close> of a derived container leaves its own container as it is and is safe to
  repeat; \<open>dispose\<close> of \<open>create\<close> removes the pending refresh timer, and the refresh
  callback does nothing on a disposed container.
\<close>

lemma dispose_linked_own_blok:
  "l_blok lk \<notin> fst ` set (unsubscribes lk) \<Longrightarrow>
     bloks (snd (dispose_linked lk w)) (l_blok lk) = bloks w (l_blok lk)"
proof -
  have "d \<notin> fst ` set us \<Longrightarrow>
      bloks (fold (\<lambda>(src, u). upd_blok src (unsubscribe (Linked d) u)) us w) d = bloks w d"
    for d us
    by (induction us arbitrary: w) (auto simp: upd_blok_def)
  then show "l_blok lk \<notin> fst ` set (unsubscribes lk) \<Longrightarrow> ?thesis"
    by (simp add: dispose_linked_def)
qed

lemma dispose_linked_twice:
  "dispose_linked (fst (dispose_linked lk w)) (snd (dispose_linked lk w)) = dispose_linked lk w"
  by (simp add: dispose_linked_def)

lemma disposed_refresh_stops: "disposed (bloks w c) \<Longrightarrow> refresh_callback c w = w"
  by (simp add: refresh_callback_def)

lemma dispose_clears_timer:
  "\<not> disposed (bloks w c) \<Longrightarrow> autoRefreshTimer (bloks w c) = Some t \<Longrightarrow>
     map_of (timers (dispose c w)) t = None"
  by (simp add: dispose_def clearTimeout_def upd_blok_def Let_def clear_def map_of_eq_None_iff)
     force


section \<open>Dehydration\<close>




section \<open>Derived containers: propagation\<close>






section \<open>Batches\<close>






end
